theory Spec2Isabelle
  imports Main "HOL-Library.Char_ord" "HOL-Library.List_Lexorder"
begin

section \<open>Patient counter: data model\<close>

text \<open>
  The application keeps a ledger of finished sessions and one in-progress session
  (\<^verbatim>\<open>src/App.tsx\<close>). JavaScript strings are lists of characters, which the
  operators \<^verbatim>\<open>===\<close> and \<^verbatim>\<open><\<close> compare by code unit; the counters and totals are
  integers.
\<close>

record Session =
  sessionId :: string
  date :: string
  location :: string
  total :: int
  finishedAt :: string

record CurrentState =
  date :: "string option"
  location :: "string option"
  newCount :: int
  oldCount :: int
  locked :: bool

text \<open>The part of the component state of \<^verbatim>\<open>App\<close> that the handlers read and write.\<close>

record App =
  sessions :: "Session list"
  current :: CurrentState
  showFinish :: bool

datatype key = NewCount | OldCount

section \<open>Helpers\<close>

definition clamp :: "int \<Rightarrow> int \<Rightarrow> int \<Rightarrow> int" where
  "clamp v mn mx = max mn (min mx v)"

text \<open>
  \<^verbatim>\<open>Boolean(x)\<close> on a value of type \<^verbatim>\<open>string | null\<close>: \<^verbatim>\<open>null\<close> and the empty
  string are falsy.
\<close>

fun truthy :: "string option \<Rightarrow> bool" where
  "truthy None = False"
| "truthy (Some s) = (s \<noteq> [])"

text \<open>
  \<^verbatim>\<open>String.prototype.localeCompare\<close> is a function of the platform: it compares by the
  collation of the locale, which is not the order of the code units (it puts \<open>a\<close> before
  \<open>B\<close>). It is therefore a parameter \<open>lc\<close> of every definition that sorts; \<open>lc a b\<close>
  stands for \<^verbatim>\<open>a.localeCompare(b)\<close>, negative, zero or positive.

  The three-way comparison by code units, the order of the operators \<^verbatim>\<open><\<close> and
  \<^verbatim>\<open>>\<close> on strings, is the lexicographic comparison that section 4.3 of the
  specification speaks of.
\<close>

definition codeUnitCompare :: "string \<Rightarrow> string \<Rightarrow> int" where
  "codeUnitCompare a b = (if a < b then - 1 else if a = b then 0 else 1)"

text \<open>
  \<^verbatim>\<open>Array.prototype.sort(compareFn)\<close>: a stable sort; \<open>a\<close> stays before \<open>b\<close> when
  \<^verbatim>\<open>compareFn(a, b) <= 0\<close>. Modelled as insertion from the right, which is stable.
\<close>

fun insort_by :: "('a \<Rightarrow> 'a \<Rightarrow> int) \<Rightarrow> 'a \<Rightarrow> 'a list \<Rightarrow> 'a list" where
  "insort_by cmp x [] = [x]"
| "insort_by cmp x (y # ys) =
     (if cmp x y \<le> 0 then x # y # ys else y # insort_by cmp x ys)"

fun array_sort :: "('a \<Rightarrow> 'a \<Rightarrow> int) \<Rightarrow> 'a list \<Rightarrow> 'a list" where
  "array_sort cmp [] = []"
| "array_sort cmp (x # xs) = insort_by cmp x (array_sort cmp xs)"

text \<open>\<^verbatim>\<open>Array.prototype.findIndex\<close>: the first index whose element passes, or \<open>-1\<close>.\<close>

fun findIndex :: "('a \<Rightarrow> bool) \<Rightarrow> 'a list \<Rightarrow> int" where
  "findIndex P [] = - 1"
| "findIndex P (x # xs) =
     (if P x then 0 else (let i = findIndex P xs in if i < 0 then - 1 else i + 1))"

section \<open>Session ledger\<close>

text \<open>
  The comparator of every sort in the application:
  \<^verbatim>\<open>(a, b) => (a.date === b.date ? b.finishedAt.localeCompare(a.finishedAt)
                                      : b.date.localeCompare(a.date))\<close>.
\<close>

definition session_cmp ::
  "(string \<Rightarrow> string \<Rightarrow> int) \<Rightarrow> Session \<Rightarrow> Session \<Rightarrow> int" where
  "session_cmp lc a b =
     (if Session.date a = Session.date b
      then lc (finishedAt b) (finishedAt a)
      else lc (Session.date b) (Session.date a))"

text \<open>
  The updater that \<^verbatim>\<open>doFinish\<close> passes to \<^verbatim>\<open>setSessions\<close> (lines 143 to 159). Its
  inputs besides the previous list: the platform's \<^verbatim>\<open>localeCompare\<close>, the date,
  location and total of the current session, the timestamp \<^verbatim>\<open>localISO()\<close> and the
  identifier \<^verbatim>\<open>uuidv4()\<close>.
\<close>

definition mergeOrAppend ::
  "(string \<Rightarrow> string \<Rightarrow> int) \<Rightarrow> Session list \<Rightarrow> string \<Rightarrow> string \<Rightarrow> int \<Rightarrow> string \<Rightarrow> string
     \<Rightarrow> Session list" where
  "mergeOrAppend lc prev d l amount ts uid =
     (let idx = findIndex (\<lambda>r. Session.date r = d \<and> Session.location r = l) prev in
      if idx \<ge> 0 then
        (let merged = prev;
             merged = merged[nat idx := (merged ! nat idx)
                        \<lparr>total := total (merged ! nat idx) + amount, finishedAt := ts\<rparr>]
         in array_sort (session_cmp lc) merged)
      else
        (let next = \<lparr>sessionId = uid, date = d, location = l, total = amount,
                      finishedAt = ts\<rparr>
         in array_sort (session_cmp lc) (next # prev)))"

text \<open>The invariant of the ledger: no two records share a (date, location) pair.\<close>

definition session_key :: "Session \<Rightarrow> string \<times> string" where
  "session_key s = (Session.date s, Session.location s)"

definition key_unique :: "Session list \<Rightarrow> bool" where
  "key_unique xs = distinct (map session_key xs)"

section \<open>Current-session state and its handlers\<close>

text \<open>\<^verbatim>\<open>const total = current.newCount + current.oldCount\<close>.\<close>

definition current_total :: "CurrentState \<Rightarrow> int" where
  "current_total s = newCount s + oldCount s"

text \<open>\<^verbatim>\<open>canStart = Boolean(current.date) && Boolean(current.location)\<close>.\<close>

definition canStart :: "CurrentState \<Rightarrow> bool" where
  "canStart s = (truthy (CurrentState.date s) \<and> truthy (CurrentState.location s))"

definition counterEnabled :: "CurrentState \<Rightarrow> bool" where
  "counterEnabled s = canStart s"

text \<open>Reading \<^verbatim>\<open>s[key]\<close> and building \<^verbatim>\<open>{ ...s, [key]: val }\<close>.\<close>

fun get_count :: "key \<Rightarrow> CurrentState \<Rightarrow> int" where
  "get_count NewCount s = newCount s"
| "get_count OldCount s = oldCount s"

fun set_count :: "key \<Rightarrow> int \<Rightarrow> CurrentState \<Rightarrow> CurrentState" where
  "set_count NewCount v s = s\<lparr>newCount := v\<rparr>"
| "set_count OldCount v s = s\<lparr>oldCount := v\<rparr>"

text \<open>
  Each handler is a transition of the component state. The handler runs in the closure of
  the latest render, so the \<^verbatim>\<open>current\<close> it tests is the state its updater receives.
\<close>

definition onInc :: "key \<Rightarrow> App \<Rightarrow> App" where
  "onInc k a =
     (if \<not> counterEnabled (current a) then a
      else a\<lparr>current :=
        (let s = current a;
             val = clamp (get_count k s + 1) 0 99
         in (set_count k val s)
              \<lparr>locked := locked s \<or> val > 0 \<or> newCount s + oldCount s > 0\<rparr>)\<rparr>)"

definition onDec :: "key \<Rightarrow> App \<Rightarrow> App" where
  "onDec k a =
     (if \<not> counterEnabled (current a) then a
      else a\<lparr>current :=
        (let s = current a;
             val = clamp (get_count k s - 1) 0 99
         in (set_count k val s)\<lparr>locked := locked s \<or> newCount s + oldCount s > 0\<rparr>)\<rparr>)"

definition onReset :: "key \<Rightarrow> App \<Rightarrow> App" where
  "onReset k a =
     (if \<not> counterEnabled (current a) then a
      else a\<lparr>current := set_count k 0 (current a)\<rparr>)"

definition changeDate :: "string \<Rightarrow> App \<Rightarrow> App" where
  "changeDate val a =
     (if locked (current a) then a
      else a\<lparr>current := (current a)\<lparr>date := Some val\<rparr>\<rparr>)"

definition changeLocation :: "string \<Rightarrow> App \<Rightarrow> App" where
  "changeLocation val a =
     (if locked (current a) then a
      else a\<lparr>current := (current a)\<lparr>location := Some val\<rparr>\<rparr>)"

text \<open>
  \<^verbatim>\<open>doFinish\<close>, with what it draws from outside the state as arguments: the
  platform's \<^verbatim>\<open>localeCompare\<close>, the timestamp \<open>ts\<close> of \<^verbatim>\<open>localISO()\<close> and the
  identifier \<open>uid\<close> of \<^verbatim>\<open>uuidv4()\<close>. After
  the guard both selections are strings; the last case cannot be reached.
\<close>

definition doFinish ::
  "(string \<Rightarrow> string \<Rightarrow> int) \<Rightarrow> string \<Rightarrow> string \<Rightarrow> App \<Rightarrow> App" where
  "doFinish lc ts uid a =
     (let cur = current a; tot = current_total cur in
      if tot = 0 \<or> \<not> truthy (CurrentState.date cur) \<or> \<not> truthy (CurrentState.location cur)
      then a\<lparr>showFinish := False\<rparr>
      else
        (case (CurrentState.date cur, CurrentState.location cur) of
           (Some d, Some l) \<Rightarrow>
             a\<lparr>sessions := mergeOrAppend lc (sessions a) d l tot ts uid,
               current := cur\<lparr>newCount := 0, oldCount := 0, locked := False\<rparr>,
               showFinish := False\<rparr>
         | _ \<Rightarrow> a\<lparr>showFinish := False\<rparr>))"

text \<open>The user's actions, and a run of the application over a list of them.\<close>

datatype event =
    Inc key
  | Dec key
  | Reset key
  | ChangeDate string
  | ChangeLocation string
  | Finish string string

fun step :: "(string \<Rightarrow> string \<Rightarrow> int) \<Rightarrow> event \<Rightarrow> App \<Rightarrow> App" where
  "step lc (Inc k) a = onInc k a"
| "step lc (Dec k) a = onDec k a"
| "step lc (Reset k) a = onReset k a"
| "step lc (ChangeDate v) a = changeDate v a"
| "step lc (ChangeLocation v) a = changeLocation v a"
| "step lc (Finish ts uid) a = doFinish lc ts uid a"

definition run ::
  "(string \<Rightarrow> string \<Rightarrow> int) \<Rightarrow> event list \<Rightarrow> App \<Rightarrow> App" where
  "run lc evs a = fold (step lc) evs a"

text \<open>
  The state of a first start: the default of \<^verbatim>\<open>loadCurrent\<close>, with \<open>today\<close> the value
  of \<^verbatim>\<open>todayISO()\<close>, beside whatever ledger \<^verbatim>\<open>loadSessions\<close> returned.
\<close>

definition default_current :: "string \<Rightarrow> CurrentState" where
  "default_current today =
     \<lparr>date = Some today, location = None, newCount = 0, oldCount = 0, locked = False\<rparr>"

definition init_app :: "Session list \<Rightarrow> string \<Rightarrow> App" where
  "init_app ss today = \<lparr>sessions = ss, current = default_current today, showFinish = False\<rparr>"

section \<open>Local store adapter\<close>

text \<open>
  \<^verbatim>\<open>localStorage\<close> belongs to the platform. Its model: the stored strings, whether
  access is denied (every call then throws \<^verbatim>\<open>SecurityError\<close>), and the longest value a
  write accepts (a longer one throws \<^verbatim>\<open>QuotaExceededError\<close>). An exception is the left
  summand of the result.
\<close>

datatype error = SecurityError | QuotaExceededError | SyntaxError

record Storage =
  entries :: "string \<rightharpoonup> string"
  blocked :: bool
  quota :: nat

definition getItem :: "Storage \<Rightarrow> string \<Rightarrow> error + string option" where
  "getItem st k = (if blocked st then Inl SecurityError else Inr (entries st k))"

definition setItem :: "Storage \<Rightarrow> string \<Rightarrow> string \<Rightarrow> error + Storage" where
  "setItem st k v =
     (if blocked st then Inl SecurityError
      else if quota st < length v then Inl QuotaExceededError
      else Inr (st\<lparr>entries := (entries st)(k \<mapsto> v)\<rparr>))"

definition SESSIONS_KEY :: string where
  "SESSIONS_KEY = ''pc_sessions_v1''"

definition CURRENT_KEY :: string where
  "CURRENT_KEY = ''pc_current_v1''"

text \<open>
  \<^verbatim>\<open>JSON.parse\<close> and \<^verbatim>\<open>JSON.stringify\<close> are parameters: \<open>parse raw = None\<close> stands
  for the \<^verbatim>\<open>SyntaxError\<close> of malformed text. In each loader the \<^verbatim>\<open>try\<close> block is
  the inner value and the \<^verbatim>\<open>catch\<close> the outer case.
\<close>

definition loadSessions :: "(string \<Rightarrow> Session list option) \<Rightarrow> Storage \<Rightarrow> error + Session list" where
  "loadSessions parse st =
     (let attempt =
        (case getItem st SESSIONS_KEY of
           Inl e \<Rightarrow> Inl e
         | Inr raw \<Rightarrow>
             (if truthy raw
              then (case parse (case raw of Some r \<Rightarrow> r | None \<Rightarrow> []) of
                      None \<Rightarrow> Inl SyntaxError
                    | Some v \<Rightarrow> Inr v)
              else Inr []))
      in case attempt of Inl e \<Rightarrow> Inr [] | Inr v \<Rightarrow> Inr v)"

definition saveSessions :: "(Session list \<Rightarrow> string) \<Rightarrow> Storage \<Rightarrow> Session list \<Rightarrow> error + Storage" where
  "saveSessions stringify st list = setItem st SESSIONS_KEY (stringify list)"

definition loadCurrent ::
  "string \<Rightarrow> (string \<Rightarrow> CurrentState option) \<Rightarrow> Storage \<Rightarrow> error + CurrentState" where
  "loadCurrent today parse st =
     (let attempt =
        (case getItem st CURRENT_KEY of
           Inl e \<Rightarrow> Inl e
         | Inr raw \<Rightarrow>
             (if truthy raw
              then (case parse (case raw of Some r \<Rightarrow> r | None \<Rightarrow> []) of
                      None \<Rightarrow> Inl SyntaxError
                    | Some v \<Rightarrow> Inr v)
              else Inr (default_current today)))
      in case attempt of Inl e \<Rightarrow> Inr (default_current today) | Inr v \<Rightarrow> Inr v)"

definition saveCurrent :: "(CurrentState \<Rightarrow> string) \<Rightarrow> Storage \<Rightarrow> CurrentState \<Rightarrow> error + Storage" where
  "saveCurrent stringify st s = setItem st CURRENT_KEY (stringify s)"

section \<open>History filter\<close>

text \<open>\<^verbatim>\<open>String.prototype.slice(i, j)\<close> for \<open>0 \<le> i \<le> j\<close>.\<close>

definition slice :: "nat \<Rightarrow> nat \<Rightarrow> string \<Rightarrow> string" where
  "slice i j s = drop i (take j s)"

text \<open>
  The predicate of \<^verbatim>\<open>sessions.filter\<close> in \<^verbatim>\<open>filtered\<close>, with its chain of early
  returns. \<^verbatim>\<open>Number\<close> is a parameter: \<open>None\<close> stands for \<^verbatim>\<open>NaN\<close> and for any value
  that is not an integer, neither of which is \<^verbatim>\<open>===\<close> to a month number. The string
  \<^verbatim>\<open>"ALL"\<close> and the month \<open>0\<close> switch a filter off, and so does an empty bound.
\<close>

definition passes ::
  "(string \<Rightarrow> int option) \<Rightarrow> string \<Rightarrow> string \<Rightarrow> int \<Rightarrow> string \<Rightarrow> string \<Rightarrow> Session \<Rightarrow> bool" where
  "passes Number locFilter yearFilter monthFilter from to s =
     (if locFilter \<noteq> ''ALL'' \<and> Session.location s \<noteq> locFilter then False
      else if yearFilter \<noteq> ''ALL'' \<and> slice 0 4 (Session.date s) \<noteq> yearFilter then False
      else if monthFilter \<noteq> 0 \<and> Number (slice 5 7 (Session.date s)) \<noteq> Some monthFilter then False
      else if from \<noteq> [] \<and> Session.date s < from then False
      else if to \<noteq> [] \<and> Session.date s > to then False
      else True)"

definition filtered ::
  "(string \<Rightarrow> int option) \<Rightarrow> Session list \<Rightarrow> string \<Rightarrow> string \<Rightarrow> int \<Rightarrow> string \<Rightarrow> string
     \<Rightarrow> Session list" where
  "filtered Number ss locFilter yearFilter monthFilter from to =
     filter (passes Number locFilter yearFilter monthFilter from to) ss"

text \<open>
  Arrays are objects, and \<^verbatim>\<open>sort\<close> works in place, so whether the ledger is touched is
  a question about the store of arrays. An address is an index of the store;
  \<^verbatim>\<open>Array.prototype.filter\<close> allocates its result and writes nowhere else.
\<close>

type_synonym heap = "Session list list"

definition array_filter :: "(Session \<Rightarrow> bool) \<Rightarrow> nat \<Rightarrow> heap \<Rightarrow> nat \<times> heap" where
  "array_filter p r h = (length h, h @ [filter p (h ! r)])"

definition filtered_at ::
  "(string \<Rightarrow> int option) \<Rightarrow> nat \<Rightarrow> string \<Rightarrow> string \<Rightarrow> int \<Rightarrow> string \<Rightarrow> string \<Rightarrow> heap
     \<Rightarrow> nat \<times> heap" where
  "filtered_at Number r locFilter yearFilter monthFilter from to h =
     array_filter (passes Number locFilter yearFilter monthFilter from to) r h"

section \<open>Offline asset cache\<close>

text \<open>
  The cache storage of the service worker (\<^verbatim>\<open>public/sw.js\<close>): named caches, in the
  order \<^verbatim>\<open>caches.keys()\<close> lists them. The activate handler maps over the names and
  deletes each one that is not \<^verbatim>\<open>CACHE\<close>; the deletions do not depend on each other,
  so their order does not matter.
\<close>

definition CACHE :: string where
  "CACHE = ''pcache-v1''"

type_synonym 'c CacheStorage = "(string \<times> 'c) list"

definition cache_keys :: "'c CacheStorage \<Rightarrow> string list" where
  "cache_keys cs = map fst cs"

definition cache_delete :: "string \<Rightarrow> 'c CacheStorage \<Rightarrow> 'c CacheStorage" where
  "cache_delete k cs = filter (\<lambda>(n, c). n \<noteq> k) cs"

definition activate :: "'c CacheStorage \<Rightarrow> 'c CacheStorage" where
  "activate cs =
     fold (\<lambda>k cs'. if k = CACHE then cs' else cache_delete k cs') (cache_keys cs) cs"

section \<open>Predicates of the statements\<close>

text \<open>Both counters within \<open>[0, 99]\<close>.\<close>

definition counts_ok :: "CurrentState \<Rightarrow> bool" where
  "counts_ok s = (0 \<le> newCount s \<and> newCount s \<le> 99 \<and> 0 \<le> oldCount s \<and> oldCount s \<le> 99)"

text \<open>
  The order of the ledger as section 4.3 words it: \<open>a\<close> may stand before \<open>b\<close> when its
  date is the later one, or the dates are equal and it was finished no earlier.
\<close>

definition ledger_order :: "Session \<Rightarrow> Session \<Rightarrow> bool" where
  "ledger_order a b =
     (Session.date b < Session.date a \<or>
      (Session.date a = Session.date b \<and> finishedAt b \<le> finishedAt a))"

text \<open>
  \<open>lc\<close> orders the strings of a list as the code units do: for any two of them,
  \<open>lc x y \<le> 0\<close> exactly when \<open>x \<le> y\<close>.
\<close>

definition orders_as_code_units ::
  "(string \<Rightarrow> string \<Rightarrow> int) \<Rightarrow> string list \<Rightarrow> bool" where
  "orders_as_code_units lc xs = (\<forall>x \<in> set xs. \<forall>y \<in> set xs. (lc x y \<le> 0) = (x \<le> y))"

text \<open>
  Two answers of the platform's collation that are not the order of the code units: it
  puts \<open>a\<close> before \<open>B\<close>, and the full stop before the plus sign. The comparator below
  gives these answers on two pairs of strings, and the order of the code units elsewhere.
\<close>

definition collation_example :: "string \<Rightarrow> string \<Rightarrow> int" where
  "collation_example x y =
     (if x = ''a'' \<and> y = ''B'' then - 1
      else if x = ''B'' \<and> y = ''a'' then 1
      else if x = ''2024-01-01T10:00:00.000Z'' \<and> y = ''2024-01-01T10:00:00+06:00'' then - 1
      else if x = ''2024-01-01T10:00:00+06:00'' \<and> y = ''2024-01-01T10:00:00.000Z'' then 1
      else codeUnitCompare x y)"

text \<open>What the latch needs to hold along a run: no counter is negative, and a positive
  total is a locked state.\<close>

definition latch_inv :: "CurrentState \<Rightarrow> bool" where
  "latch_inv s = (0 \<le> newCount s \<and> 0 \<le> oldCount s \<and> (0 < current_total s \<longrightarrow> locked s))"

section \<open>Sorting and searching\<close>

lemma set_insort_by: "set (insort_by cmp x ys) = insert x (set ys)"
  by (induction ys) auto

lemma set_array_sort: "set (array_sort cmp xs) = set xs"
  by (induction xs) (auto simp: set_insort_by)

lemma distinct_map_insort_by:
  "distinct (map f (insort_by cmp x ys)) = (f x \<notin> f ` set ys \<and> distinct (map f ys))"
  by (induction ys) (auto simp: set_insort_by)

lemma distinct_map_array_sort:
  "distinct (map f (array_sort cmp xs)) = distinct (map f xs)"
  by (induction xs) (auto simp: distinct_map_insort_by set_array_sort)

lemma findIndex_lower: "- 1 \<le> findIndex P xs"
  by (induction xs) (auto simp: Let_def)

lemma findIndex_neg_iff: "findIndex P xs < 0 \<longleftrightarrow> (\<forall>x \<in> set xs. \<not> P x)"
  using findIndex_lower [of P]
  by (induction xs) (auto simp: Let_def)

lemma map_update_same: "f y = f (xs ! i) \<Longrightarrow> map f (xs[i := y]) = map f xs"
  by (induction xs arbitrary: i) (auto split: nat.splits)

lemma map_key_merge:
  "map session_key (xs[i := (xs ! i)\<lparr>total := n, finishedAt := ts\<rparr>]) = map session_key xs"
  by (rule map_update_same) (simp add: session_key_def)

lemma session_cmp_le0:
  assumes "(lc (Session.date b) (Session.date a) \<le> 0) = (Session.date b \<le> Session.date a)"
    and "(lc (finishedAt b) (finishedAt a) \<le> 0) = (finishedAt b \<le> finishedAt a)"
  shows "session_cmp lc a b \<le> 0 \<longleftrightarrow> ledger_order a b"
  using assms by (auto simp: session_cmp_def ledger_order_def)

lemma session_cmp_agrees:
  assumes "orders_as_code_units lc ds" and "orders_as_code_units lc fs"
    and "Session.date ` set xs \<subseteq> set ds" and "finishedAt ` set xs \<subseteq> set fs"
    and "a \<in> set xs" and "b \<in> set xs"
  shows "session_cmp lc a b \<le> 0 \<longleftrightarrow> ledger_order a b"
proof (rule session_cmp_le0)
  from assms(3,5,6) have "Session.date b \<in> set ds" "Session.date a \<in> set ds"
    by auto
  with assms(1)
  show "(lc (Session.date b) (Session.date a) \<le> 0) = (Session.date b \<le> Session.date a)"
    by (simp add: orders_as_code_units_def)
  from assms(4,5,6) have "finishedAt b \<in> set fs" "finishedAt a \<in> set fs"
    by auto
  with assms(2)
  show "(lc (finishedAt b) (finishedAt a) \<le> 0) = (finishedAt b \<le> finishedAt a)"
    by (simp add: orders_as_code_units_def)
qed

lemma ledger_order_total: "ledger_order a b \<or> ledger_order b a"
  by (auto simp: ledger_order_def)

lemma ledger_order_trans: "ledger_order a b \<Longrightarrow> ledger_order b c \<Longrightarrow> ledger_order a c"
  by (auto simp: ledger_order_def)

lemma sorted_insort_by:
  assumes "\<forall>y \<in> set ys. (cmp x y \<le> 0) = ledger_order x y"
    and "sorted_wrt ledger_order ys"
  shows "sorted_wrt ledger_order (insort_by cmp x ys)"
  using assms
proof (induction ys)
  case Nil
  then show ?case by simp
next
  case (Cons y ys)
  show ?case
  proof (cases "cmp x y \<le> 0")
    case True
    with Cons.prems have xy: "ledger_order x y"
      by simp
    with Cons.prems have "\<forall>z \<in> set ys. ledger_order x z"
      by (auto intro: ledger_order_trans)
    with xy Cons.prems True show ?thesis by simp
  next
    case False
    with Cons.prems have "ledger_order y x"
      using ledger_order_total [of x y] by simp
    with False Cons show ?thesis
      by (auto simp: set_insort_by)
  qed
qed

lemma sorted_array_sort:
  assumes "\<forall>x \<in> set xs. \<forall>y \<in> set xs. (cmp x y \<le> 0) = ledger_order x y"
  shows "sorted_wrt ledger_order (array_sort cmp xs)"
  using assms
proof (induction xs)
  case Nil
  then show ?case by simp
next
  case (Cons x xs)
  then have "sorted_wrt ledger_order (array_sort cmp xs)"
    by simp
  moreover from Cons.prems
  have "\<forall>y \<in> set (array_sort cmp xs). (cmp x y \<le> 0) = ledger_order x y"
    by (simp add: set_array_sort)
  ultimately show ?case
    by (simp add: sorted_insort_by)
qed

lemma sorted_mergeOrAppend:
  assumes "orders_as_code_units lc (d # map Session.date prev)"
    and "orders_as_code_units lc (ts # map finishedAt prev)"
  shows "sorted_wrt ledger_order (mergeOrAppend lc prev d l amount ts uid)"
proof -
  let ?ds = "d # map Session.date prev" and ?fs = "ts # map finishedAt prev"
  have sorted: "sorted_wrt ledger_order (array_sort (session_cmp lc) xs)"
    if "Session.date ` set xs \<subseteq> set ?ds" and "finishedAt ` set xs \<subseteq> set ?fs" for xs
    using session_cmp_agrees [OF assms that] by (intro sorted_array_sort) blast
  let ?i = "nat (findIndex (\<lambda>r. Session.date r = d \<and> Session.location r = l) prev)"
  let ?merged = "prev[?i := (prev ! ?i)\<lparr>total := total (prev ! ?i) + amount, finishedAt := ts\<rparr>]"
  let ?next = "\<lparr>sessionId = uid, date = d, location = l, total = amount, finishedAt = ts\<rparr>"
  have "map Session.date ?merged = map Session.date prev"
    by (rule map_update_same) simp
  then have "Session.date ` set ?merged = Session.date ` set prev"
    by (metis list.set_map)
  moreover have "set ?merged \<subseteq> insert ((prev ! ?i)\<lparr>total := total (prev ! ?i) + amount,
      finishedAt := ts\<rparr>) (set prev)"
    by (rule set_update_subset_insert)
  then have "finishedAt ` set ?merged \<subseteq> set ?fs"
    by auto
  ultimately have "sorted_wrt ledger_order (array_sort (session_cmp lc) ?merged)"
    by (intro sorted) auto
  moreover have "sorted_wrt ledger_order (array_sort (session_cmp lc) (?next # prev))"
    by (intro sorted) auto
  ultimately show ?thesis
    by (simp add: mergeOrAppend_def Let_def)
qed

lemma key_unique_mergeOrAppend:
  assumes "key_unique prev"
  shows "key_unique (mergeOrAppend lc prev d l amount ts uid)"
proof (cases "0 \<le> findIndex (\<lambda>r. Session.date r = d \<and> Session.location r = l) prev")
  case True
  with assms show ?thesis
    by (simp add: mergeOrAppend_def key_unique_def Let_def distinct_map_array_sort map_key_merge)
next
  case False
  then have "\<forall>x \<in> set prev. \<not> (Session.date x = d \<and> Session.location x = l)"
    using findIndex_neg_iff [of "\<lambda>r. Session.date r = d \<and> Session.location r = l" prev] by simp
  then have "session_key \<lparr>sessionId = uid, date = d, location = l, total = amount,
      finishedAt = ts\<rparr> \<notin> session_key ` set prev"
    by (auto simp: session_key_def)
  with False assms show ?thesis
    by (simp add: mergeOrAppend_def key_unique_def Let_def distinct_map_array_sort
        distinct_map_insort_by set_array_sort)
qed

lemma sessions_doFinish:
  "sessions (doFinish lc ts uid a) = sessions a \<or>
   (\<exists>d l. sessions (doFinish lc ts uid a) =
      mergeOrAppend lc (sessions a) d l (current_total (current a)) ts uid)"
  by (auto simp: doFinish_def Let_def split: option.splits)

lemma sessions_doFinish_done:
  assumes "current_total (current a) \<noteq> 0" and "canStart (current a)"
  shows "\<exists>d l. CurrentState.date (current a) = Some d \<and> CurrentState.location (current a) = Some l \<and>
           sessions (doFinish lc ts uid a) =
             mergeOrAppend lc (sessions a) d l (current_total (current a)) ts uid"
proof -
  from assms(2) obtain d l where
    "CurrentState.date (current a) = Some d" "CurrentState.location (current a) = Some l"
    "d \<noteq> []" "l \<noteq> []"
    by (cases "CurrentState.date (current a)"; cases "CurrentState.location (current a)")
       (auto simp: canStart_def)
  with assms(1) show ?thesis
    by (simp add: doFinish_def Let_def)
qed

section \<open>The handlers along a run\<close>

lemma counts_ok_onInc: "counts_ok (current a) \<Longrightarrow> counts_ok (current (onInc k a))"
  by (cases k) (auto simp: onInc_def counts_ok_def Let_def clamp_def)

lemma counts_ok_onDec: "counts_ok (current a) \<Longrightarrow> counts_ok (current (onDec k a))"
  by (cases k) (auto simp: onDec_def counts_ok_def Let_def clamp_def)

lemma counts_ok_onReset: "counts_ok (current a) \<Longrightarrow> counts_ok (current (onReset k a))"
  by (cases k) (auto simp: onReset_def counts_ok_def)

lemma counts_ok_doFinish: "counts_ok (current a) \<Longrightarrow> counts_ok (current (doFinish lc ts uid a))"
  by (auto simp: doFinish_def counts_ok_def Let_def split: option.splits)

lemma counts_ok_change:
  "counts_ok (current a) \<Longrightarrow> counts_ok (current (changeDate v a))"
  "counts_ok (current a) \<Longrightarrow> counts_ok (current (changeLocation v a))"
  by (simp_all add: changeDate_def changeLocation_def counts_ok_def)

lemma counts_ok_step: "counts_ok (current a) \<Longrightarrow> counts_ok (current (step lc e a))"
  by (cases e)
     (simp_all add: counts_ok_onInc counts_ok_onDec counts_ok_onReset counts_ok_doFinish
        counts_ok_change)

lemma counts_ok_run: "counts_ok (current a) \<Longrightarrow> counts_ok (current (run lc evs a))"
  unfolding run_def
  by (induction evs arbitrary: a) (auto intro: counts_ok_step)

lemma latch_inv_onInc: "latch_inv (current a) \<Longrightarrow> latch_inv (current (onInc k a))"
  by (cases k) (auto simp: onInc_def latch_inv_def current_total_def Let_def clamp_def)

lemma latch_inv_onDec: "latch_inv (current a) \<Longrightarrow> latch_inv (current (onDec k a))"
  by (cases k) (auto simp: onDec_def latch_inv_def current_total_def Let_def clamp_def)

lemma latch_inv_onReset: "latch_inv (current a) \<Longrightarrow> latch_inv (current (onReset k a))"
  by (cases k) (auto simp: onReset_def latch_inv_def current_total_def)

lemma latch_inv_doFinish: "latch_inv (current a) \<Longrightarrow> latch_inv (current (doFinish lc ts uid a))"
  by (auto simp: doFinish_def latch_inv_def current_total_def Let_def split: option.splits)

lemma latch_inv_change:
  "latch_inv (current a) \<Longrightarrow> latch_inv (current (changeDate v a))"
  "latch_inv (current a) \<Longrightarrow> latch_inv (current (changeLocation v a))"
  by (auto simp: changeDate_def changeLocation_def latch_inv_def current_total_def)

lemma latch_inv_step: "latch_inv (current a) \<Longrightarrow> latch_inv (current (step lc e a))"
  by (cases e)
     (simp_all add: latch_inv_onInc latch_inv_onDec latch_inv_onReset latch_inv_doFinish
        latch_inv_change)

lemma latch_inv_run: "latch_inv (current a) \<Longrightarrow> latch_inv (current (run lc evs a))"
  unfolding run_def
  by (induction evs arbitrary: a) (auto intro: latch_inv_step)

lemma latch_inv_init: "latch_inv (current (init_app ss today))"
  by (simp add: init_app_def default_current_def latch_inv_def current_total_def)

lemma locked_kept_count:
  "locked (current a) \<Longrightarrow> locked (current (onInc k a)) \<and> locked (current (onDec k a)) \<and>
     locked (current (onReset k a))"
  by (cases k) (auto simp: onInc_def onDec_def onReset_def Let_def)

lemma locked_kept:
  assumes "locked (current a)" and "\<not> locked (current (step lc e a))"
  shows "(\<exists>ts uid. e = Finish ts uid) \<and> current_total (current a) \<noteq> 0 \<and> canStart (current a)"
proof (cases e)
  case (Finish ts uid)
  with assms show ?thesis
    by (auto simp: doFinish_def Let_def canStart_def split: if_splits)
qed (use assms locked_kept_count [of a] in \<open>auto simp: changeDate_def changeLocation_def\<close>)

section \<open>Loading, and the activation of the cache\<close>

lemma loadSessions_cases:
  "loadSessions parse st =
     Inr (if blocked st then []
          else case entries st SESSIONS_KEY of
                 None \<Rightarrow> []
               | Some raw \<Rightarrow>
                   if raw = [] then [] else (case parse raw of None \<Rightarrow> [] | Some v \<Rightarrow> v))"
  by (simp add: loadSessions_def getItem_def Let_def split: option.splits)

lemma loadCurrent_cases:
  "loadCurrent today parse st =
     Inr (if blocked st then default_current today
          else case entries st CURRENT_KEY of
                 None \<Rightarrow> default_current today
               | Some raw \<Rightarrow>
                   if raw = [] then default_current today
                   else (case parse raw of None \<Rightarrow> default_current today | Some v \<Rightarrow> v))"
  by (simp add: loadCurrent_def getItem_def Let_def split: option.splits)

lemma fold_cache_delete:
  "fold (\<lambda>k cs'. if k = CACHE then cs' else cache_delete k cs') ks cs
     = filter (\<lambda>(n, c). n = CACHE \<or> n \<notin> set ks) cs"
proof (induction ks arbitrary: cs)
  case Nil
  then show ?case by simp
next
  case (Cons k ks)
  show ?case
    by (auto simp: Cons.IH cache_delete_def intro!: filter_cong)
qed

lemma activate_filter: "activate cs = filter (\<lambda>(n, c). n = CACHE) cs"
  unfolding activate_def fold_cache_delete cache_keys_def
  by (rule filter_cong) force+

section \<open>The ledger\<close>

text \<open>
  C1. Finishing a session keeps the ledger free of duplicate keys: if no two records of
  the ledger share a (date, location) pair, none do after the merge-or-append updater, nor
  after \<^verbatim>\<open>doFinish\<close> as a whole. Finishing 5 and then 3 patients for 2024-01-01 at Dhaka
  on an empty ledger leaves one record, with total 8, the identifier of the first finish
  and the timestamp of the second. All of this holds whatever \<^verbatim>\<open>localeCompare\<close>
  answers.
\<close>

theorem finish_keeps_key_unique:
  "(key_unique prev \<longrightarrow> key_unique (mergeOrAppend lc prev d l amount ts uid))
   \<and> (key_unique (sessions a) \<longrightarrow> key_unique (sessions (doFinish lc ts uid a)))
   \<and> mergeOrAppend lc (mergeOrAppend lc [] ''2024-01-01'' ''Dhaka'' 5 ts1 u1)
         ''2024-01-01'' ''Dhaka'' 3 ts2 u2
       = [\<lparr>sessionId = u1, date = ''2024-01-01'', location = ''Dhaka'', total = 8,
            finishedAt = ts2\<rparr>]"
proof (intro conjI impI)
  assume "key_unique prev"
  then show "key_unique (mergeOrAppend lc prev d l amount ts uid)"
    by (rule key_unique_mergeOrAppend)
next
  assume "key_unique (sessions a)"
  then show "key_unique (sessions (doFinish lc ts uid a))"
    using sessions_doFinish [of lc ts uid a] by (auto intro: key_unique_mergeOrAppend)
next
  show "mergeOrAppend lc (mergeOrAppend lc [] ''2024-01-01'' ''Dhaka'' 5 ts1 u1)
          ''2024-01-01'' ''Dhaka'' 3 ts2 u2
        = [\<lparr>sessionId = u1, date = ''2024-01-01'', location = ''Dhaka'', total = 8,
             finishedAt = ts2\<rparr>]"
    by (simp add: mergeOrAppend_def Let_def)
qed

text \<open>
  An instance: a ledger of two records of the same day, and a finish of 4 patients for the
  place of the second one.
\<close>

theorem finish_keeps_key_unique_witness:
  "key_unique
     [\<lparr>sessionId = ''a'', date = ''2024-01-01'', location = ''Dhaka'', total = 5,
        finishedAt = ''2024-01-01T10:00:00.000Z''\<rparr>,
      \<lparr>sessionId = ''b'', date = ''2024-01-01'', location = ''Barisal'', total = 2,
        finishedAt = ''2024-01-01T09:00:00.000Z''\<rparr>]
   \<and> key_unique
     (mergeOrAppend codeUnitCompare
       [\<lparr>sessionId = ''a'', date = ''2024-01-01'', location = ''Dhaka'', total = 5,
          finishedAt = ''2024-01-01T10:00:00.000Z''\<rparr>,
        \<lparr>sessionId = ''b'', date = ''2024-01-01'', location = ''Barisal'', total = 2,
          finishedAt = ''2024-01-01T09:00:00.000Z''\<rparr>]
       ''2024-01-01'' ''Barisal'' 4 ''2024-01-01T11:00:00.000Z'' ''c'')
   \<and> key_unique
     (sessions (doFinish codeUnitCompare ''2024-01-01T11:00:00.000Z'' ''c''
       \<lparr>sessions =
          [\<lparr>sessionId = ''a'', date = ''2024-01-01'', location = ''Dhaka'', total = 5,
             finishedAt = ''2024-01-01T10:00:00.000Z''\<rparr>,
           \<lparr>sessionId = ''b'', date = ''2024-01-01'', location = ''Barisal'', total = 2,
             finishedAt = ''2024-01-01T09:00:00.000Z''\<rparr>],
        current = \<lparr>date = Some ''2024-01-01'', location = Some ''Barisal'', newCount = 3,
          oldCount = 1, locked = True\<rparr>,
        showFinish = True\<rparr>))"
proof -
  let ?L = "[\<lparr>sessionId = ''a'', date = ''2024-01-01'', location = ''Dhaka'', total = 5,
        finishedAt = ''2024-01-01T10:00:00.000Z''\<rparr>,
      \<lparr>sessionId = ''b'', date = ''2024-01-01'', location = ''Barisal'', total = 2,
        finishedAt = ''2024-01-01T09:00:00.000Z''\<rparr>]"
  have h: "key_unique ?L"
    by (simp add: key_unique_def session_key_def)
  show ?thesis
    using h finish_keeps_key_unique
      [of ?L codeUnitCompare "''2024-01-01''" "''Barisal''" 4 "''2024-01-01T11:00:00.000Z''" "''c''"
         "\<lparr>sessions = ?L,
           current = \<lparr>date = Some ''2024-01-01'', location = Some ''Barisal'', newCount = 3,
             oldCount = 1, locked = True\<rparr>,
           showFinish = True\<rparr>"]
    by simp
qed

text \<open>
  C2, for the ledgers whose strings the platform's collation orders as the code units do.
  If \<^verbatim>\<open>localeCompare\<close> orders the dates of the ledger and of the finished session, and
  likewise their \<^verbatim>\<open>finishedAt\<close> stamps, as the lexicographic comparison of strings does,
  then the list that the merge-or-append updater returns is in ledger order, whatever the
  order of the ledger was: a record of a later date stands first, and among records of one
  date the one finished later stands first. This holds in the merge branch and in the
  append branch, and so for the ledger after every \<^verbatim>\<open>doFinish\<close> that passes its guard.
  Finishing 5 patients for 2024-01-01 and then 3 for 2024-01-02, both at Dhaka, gives two
  records with that of 2024-01-02 first, when the collation orders these two dates so.
\<close>

theorem finish_sorts_ledger:
  "(orders_as_code_units lc (d # map Session.date prev) \<and>
    orders_as_code_units lc (ts # map finishedAt prev) \<longrightarrow>
      sorted_wrt
        (\<lambda>x y. Session.date y < Session.date x \<or>
           (Session.date x = Session.date y \<and> finishedAt y \<le> finishedAt x))
        (mergeOrAppend lc prev d l amount ts uid))
   \<and> (current_total (current a) \<noteq> 0 \<and> canStart (current a) \<and>
       CurrentState.date (current a) = Some d' \<and>
       orders_as_code_units lc (d' # map Session.date (sessions a)) \<and>
       orders_as_code_units lc (ts' # map finishedAt (sessions a)) \<longrightarrow>
         sorted_wrt
           (\<lambda>x y. Session.date y < Session.date x \<or>
              (Session.date x = Session.date y \<and> finishedAt y \<le> finishedAt x))
           (sessions (doFinish lc ts' uid' a)))
   \<and> (orders_as_code_units lc [''2024-01-01'', ''2024-01-02''] \<longrightarrow>
         mergeOrAppend lc (mergeOrAppend lc [] ''2024-01-01'' ''Dhaka'' 5 ts1 u1)
             ''2024-01-02'' ''Dhaka'' 3 ts2 u2
           = [\<lparr>sessionId = u2, date = ''2024-01-02'', location = ''Dhaka'', total = 3,
                finishedAt = ts2\<rparr>,
              \<lparr>sessionId = u1, date = ''2024-01-01'', location = ''Dhaka'', total = 5,
                finishedAt = ts1\<rparr>])"
proof -
  have order: "(\<lambda>x y. Session.date y < Session.date x \<or>
        (Session.date x = Session.date y \<and> finishedAt y \<le> finishedAt x)) = ledger_order"
    by (intro ext) (simp add: ledger_order_def)
  have "sorted_wrt ledger_order (sessions (doFinish lc ts' uid' a))"
    if "current_total (current a) \<noteq> 0" and "canStart (current a)"
      and "CurrentState.date (current a) = Some d'"
      and "orders_as_code_units lc (d' # map Session.date (sessions a))"
      and "orders_as_code_units lc (ts' # map finishedAt (sessions a))"
    using sessions_doFinish_done [OF that(1,2), of lc ts' uid'] that(3,4,5)
    by (auto simp: sorted_mergeOrAppend)
  moreover have "mergeOrAppend lc (mergeOrAppend lc [] ''2024-01-01'' ''Dhaka'' 5 ts1 u1)
         ''2024-01-02'' ''Dhaka'' 3 ts2 u2
       = [\<lparr>sessionId = u2, date = ''2024-01-02'', location = ''Dhaka'', total = 3,
            finishedAt = ts2\<rparr>,
          \<lparr>sessionId = u1, date = ''2024-01-01'', location = ''Dhaka'', total = 5,
            finishedAt = ts1\<rparr>]"
    if "orders_as_code_units lc [''2024-01-01'', ''2024-01-02'']"
  proof -
    from that have "lc ''2024-01-01'' ''2024-01-02'' \<le> 0"
      by (simp add: orders_as_code_units_def)
    then show ?thesis
      by (simp add: mergeOrAppend_def Let_def session_cmp_def)
  qed
  ultimately show ?thesis
    unfolding order by (simp add: sorted_mergeOrAppend)
qed

text \<open>
  An instance, with the comparison by code units as the collation: an unsorted ledger of
  two days and a finish for the day between them; the new record lands in the middle.
\<close>

theorem finish_sorts_ledger_witness:
  "orders_as_code_units codeUnitCompare [''2024-01-02'', ''2024-01-01'', ''2024-01-03'']
   \<and> orders_as_code_units codeUnitCompare [''t3'', ''t1'', ''t2'']
   \<and> orders_as_code_units codeUnitCompare [''2024-01-01'', ''2024-01-02'']
   \<and> current_total \<lparr>date = Some ''2024-01-02'', location = Some ''Dhaka'', newCount = 2,
      oldCount = 1, locked = True\<rparr> \<noteq> 0
   \<and> canStart \<lparr>date = Some ''2024-01-02'', location = Some ''Dhaka'', newCount = 2,
      oldCount = 1, locked = True\<rparr>
   \<and> sessions (doFinish codeUnitCompare ''t3'' ''c''
        \<lparr>sessions =
           [\<lparr>sessionId = ''a'', date = ''2024-01-01'', location = ''Dhaka'', total = 5,
              finishedAt = ''t1''\<rparr>,
            \<lparr>sessionId = ''b'', date = ''2024-01-03'', location = ''Dhaka'', total = 2,
              finishedAt = ''t2''\<rparr>],
         current = \<lparr>date = Some ''2024-01-02'', location = Some ''Dhaka'', newCount = 2,
           oldCount = 1, locked = True\<rparr>,
         showFinish = True\<rparr>)
     = [\<lparr>sessionId = ''b'', date = ''2024-01-03'', location = ''Dhaka'', total = 2,
          finishedAt = ''t2''\<rparr>,
        \<lparr>sessionId = ''c'', date = ''2024-01-02'', location = ''Dhaka'', total = 3,
          finishedAt = ''t3''\<rparr>,
        \<lparr>sessionId = ''a'', date = ''2024-01-01'', location = ''Dhaka'', total = 5,
          finishedAt = ''t1''\<rparr>]
   \<and> sorted_wrt
        (\<lambda>x y. Session.date y < Session.date x \<or>
           (Session.date x = Session.date y \<and> finishedAt y \<le> finishedAt x))
        (sessions (doFinish codeUnitCompare ''t3'' ''c''
          \<lparr>sessions =
             [\<lparr>sessionId = ''a'', date = ''2024-01-01'', location = ''Dhaka'', total = 5,
                finishedAt = ''t1''\<rparr>,
              \<lparr>sessionId = ''b'', date = ''2024-01-03'', location = ''Dhaka'', total = 2,
                finishedAt = ''t2''\<rparr>],
           current = \<lparr>date = Some ''2024-01-02'', location = Some ''Dhaka'', newCount = 2,
             oldCount = 1, locked = True\<rparr>,
           showFinish = True\<rparr>))
   \<and> sorted_wrt
        (\<lambda>x y. Session.date y < Session.date x \<or>
           (Session.date x = Session.date y \<and> finishedAt y \<le> finishedAt x))
        (mergeOrAppend codeUnitCompare
           [\<lparr>sessionId = ''a'', date = ''2024-01-01'', location = ''Dhaka'', total = 5,
              finishedAt = ''t1''\<rparr>,
            \<lparr>sessionId = ''b'', date = ''2024-01-03'', location = ''Dhaka'', total = 2,
              finishedAt = ''t2''\<rparr>]
           ''2024-01-02'' ''Dhaka'' 3 ''t3'' ''c'')"
proof -
  have h1: "orders_as_code_units codeUnitCompare [''2024-01-02'', ''2024-01-01'', ''2024-01-03'']"
    and h2: "orders_as_code_units codeUnitCompare [''t3'', ''t1'', ''t2'']"
    and h3: "orders_as_code_units codeUnitCompare [''2024-01-01'', ''2024-01-02'']"
    by (simp_all add: orders_as_code_units_def codeUnitCompare_def)
  show ?thesis
    using h1 h2 h3 finish_sorts_ledger
      [of codeUnitCompare "''2024-01-02''"
         "[\<lparr>sessionId = ''a'', date = ''2024-01-01'', location = ''Dhaka'', total = 5,
              finishedAt = ''t1''\<rparr>,
           \<lparr>sessionId = ''b'', date = ''2024-01-03'', location = ''Dhaka'', total = 2,
              finishedAt = ''t2''\<rparr>]"
         "''t3''" "''Dhaka''" 3 "''c''"
         "\<lparr>sessions =
             [\<lparr>sessionId = ''a'', date = ''2024-01-01'', location = ''Dhaka'', total = 5,
                finishedAt = ''t1''\<rparr>,
              \<lparr>sessionId = ''b'', date = ''2024-01-03'', location = ''Dhaka'', total = 2,
                finishedAt = ''t2''\<rparr>],
           current = \<lparr>date = Some ''2024-01-02'', location = Some ''Dhaka'', newCount = 2,
             oldCount = 1, locked = True\<rparr>,
           showFinish = True\<rparr>"
         "''2024-01-02''" "''t3''" "''c''"]
    by (simp add: current_total_def canStart_def doFinish_def Let_def mergeOrAppend_def
        session_cmp_def codeUnitCompare_def)
qed

text \<open>
  Without the condition on the collation the list need not be in that order. The platform
  answers \<open>1\<close> to \<^verbatim>\<open>"B".localeCompare("a")\<close>, so a record dated \<open>a\<close> is put after one
  dated \<open>B\<close>, though \<open>B\<close> is the smaller string; and among two records of one date, of
  which one carries a stamp with a local offset and the other a stamp in UTC, the one
  whose stamp is the smaller string is put first.
\<close>

theorem collation_order_counterexample:
  "mergeOrAppend collation_example
      [\<lparr>sessionId = ''p'', date = ''B'', location = ''Dhaka'', total = 5, finishedAt = ''t1''\<rparr>]
      ''a'' ''Dhaka'' 3 ''t2'' ''n''
     = [\<lparr>sessionId = ''p'', date = ''B'', location = ''Dhaka'', total = 5, finishedAt = ''t1''\<rparr>,
        \<lparr>sessionId = ''n'', date = ''a'', location = ''Dhaka'', total = 3, finishedAt = ''t2''\<rparr>]
   \<and> \<not> sorted_wrt
        (\<lambda>x y. Session.date y < Session.date x \<or>
           (Session.date x = Session.date y \<and> finishedAt y \<le> finishedAt x))
        (mergeOrAppend collation_example
          [\<lparr>sessionId = ''p'', date = ''B'', location = ''Dhaka'', total = 5,
             finishedAt = ''t1''\<rparr>]
          ''a'' ''Dhaka'' 3 ''t2'' ''n'')
   \<and> mergeOrAppend collation_example
      [\<lparr>sessionId = ''p'', date = ''2024-01-01'', location = ''Dhaka'', total = 5,
          finishedAt = ''2024-01-01T10:00:00+06:00''\<rparr>]
      ''2024-01-01'' ''Barisal'' 3 ''2024-01-01T10:00:00.000Z'' ''n''
     = [\<lparr>sessionId = ''p'', date = ''2024-01-01'', location = ''Dhaka'', total = 5,
          finishedAt = ''2024-01-01T10:00:00+06:00''\<rparr>,
        \<lparr>sessionId = ''n'', date = ''2024-01-01'', location = ''Barisal'', total = 3,
          finishedAt = ''2024-01-01T10:00:00.000Z''\<rparr>]
   \<and> \<not> sorted_wrt
        (\<lambda>x y. Session.date y < Session.date x \<or>
           (Session.date x = Session.date y \<and> finishedAt y \<le> finishedAt x))
        (mergeOrAppend collation_example
          [\<lparr>sessionId = ''p'', date = ''2024-01-01'', location = ''Dhaka'', total = 5,
             finishedAt = ''2024-01-01T10:00:00+06:00''\<rparr>]
          ''2024-01-01'' ''Barisal'' 3 ''2024-01-01T10:00:00.000Z'' ''n'')"
  by (simp add: mergeOrAppend_def Let_def session_cmp_def collation_example_def
      codeUnitCompare_def)

section \<open>The current session\<close>

text \<open>
  C3. Along every sequence of user actions, increments and decrements among them, the
  two counters stay within \<open>[0, 99]\<close> after every step, when they start there; the
  initial state, with both counters zero, is such a start.
\<close>

theorem counters_stay_in_range:
  assumes "counts_ok (current a)"
  shows "\<forall>n \<le> length evs. counts_ok (current (run lc (take n evs) a))"
  using assms by (simp add: counts_ok_run)

text \<open>
  An instance: from the state of a first start a location is chosen, then two increments
  and a decrement of the other counter, which stays at zero.
\<close>

theorem counters_stay_in_range_witness:
  "counts_ok (current (init_app [] ''2024-01-01''))
   \<and> current (run codeUnitCompare
        (take 4 [ChangeLocation ''Dhaka'', Inc NewCount, Inc NewCount, Dec OldCount,
           Dec NewCount])
        (init_app [] ''2024-01-01''))
      = \<lparr>date = Some ''2024-01-01'', location = Some ''Dhaka'', newCount = 2, oldCount = 0,
          locked = True\<rparr>
   \<and> counts_ok (current (run codeUnitCompare
        (take 4 [ChangeLocation ''Dhaka'', Inc NewCount, Inc NewCount, Dec OldCount,
           Dec NewCount])
        (init_app [] ''2024-01-01'')))"
proof -
  have h: "counts_ok (current (init_app [] ''2024-01-01''))"
    by (simp add: counts_ok_def init_app_def default_current_def)
  have "current (run codeUnitCompare
        (take 4 [ChangeLocation ''Dhaka'', Inc NewCount, Inc NewCount, Dec OldCount,
           Dec NewCount])
        (init_app [] ''2024-01-01''))
      = \<lparr>date = Some ''2024-01-01'', location = Some ''Dhaka'', newCount = 2, oldCount = 0,
          locked = True\<rparr>"
    by (simp add: run_def init_app_def default_current_def changeLocation_def onInc_def onDec_def
        counterEnabled_def canStart_def clamp_def Let_def)
  moreover have "counts_ok (current (run codeUnitCompare
        (take 4 [ChangeLocation ''Dhaka'', Inc NewCount, Inc NewCount, Dec OldCount,
           Dec NewCount])
        (init_app [] ''2024-01-01'')))"
    by (rule counters_stay_in_range [OF h, rule_format]) simp
  ultimately show ?thesis
    using h by blast
qed

text \<open>
  C4. In every state that a run of user actions reaches from the state of a first start, a
  positive total of the two counters means that \<open>locked\<close> is set. And in any state
  whatever, a step that takes \<open>locked\<close> from true to false is a finish that passed its
  guard (the total is not zero, a date and a location are selected): increment, decrement,
  reset, change of date, change of location and a refused finish all keep it.
\<close>

theorem locked_is_a_latch:
  "(0 < newCount (current (run lc evs (init_app ss today)))
        + oldCount (current (run lc evs (init_app ss today)))
      \<longrightarrow> locked (current (run lc evs (init_app ss today))))
   \<and> (locked (current a) \<and> \<not> locked (current (step lc e a)) \<longrightarrow>
        (\<exists>ts uid. e = Finish ts uid) \<and> current_total (current a) \<noteq> 0 \<and> canStart (current a))"
proof -
  have "latch_inv (current (run lc evs (init_app ss today)))"
    by (rule latch_inv_run) (rule latch_inv_init)
  then show ?thesis
    using locked_kept [of a lc e]
    by (auto simp: latch_inv_def current_total_def)
qed

text \<open>
  An instance: a location is chosen and one patient counted, which locks the state; the
  finish that follows unlocks it.
\<close>

theorem locked_is_a_latch_witness:
  "0 < newCount (current (run codeUnitCompare [ChangeLocation ''Dhaka'', Inc NewCount]
            (init_app [] ''2024-01-01'')))
       + oldCount (current (run codeUnitCompare [ChangeLocation ''Dhaka'', Inc NewCount]
            (init_app [] ''2024-01-01'')))
   \<and> locked (current (run codeUnitCompare [ChangeLocation ''Dhaka'', Inc NewCount]
          (init_app [] ''2024-01-01'')))
   \<and> \<not> locked (current (step codeUnitCompare (Finish ''t'' ''u'')
          (run codeUnitCompare [ChangeLocation ''Dhaka'', Inc NewCount]
             (init_app [] ''2024-01-01''))))
   \<and> current_total (current (run codeUnitCompare [ChangeLocation ''Dhaka'', Inc NewCount]
          (init_app [] ''2024-01-01''))) \<noteq> 0
   \<and> canStart (current (run codeUnitCompare [ChangeLocation ''Dhaka'', Inc NewCount]
          (init_app [] ''2024-01-01'')))"
  using locked_is_a_latch
    [of codeUnitCompare "[ChangeLocation ''Dhaka'', Inc NewCount]" "[]" "''2024-01-01''"
       "run codeUnitCompare [ChangeLocation ''Dhaka'', Inc NewCount] (init_app [] ''2024-01-01'')"
       "Finish ''t'' ''u''"]
  by (simp add: run_def init_app_def default_current_def changeLocation_def onInc_def
      counterEnabled_def canStart_def clamp_def Let_def doFinish_def current_total_def
      mergeOrAppend_def)

text \<open>
  C5. When the total of the two counters is zero, \<^verbatim>\<open>doFinish\<close> leaves the ledger as
  it was and \<open>locked\<close> as it was, true or false; the whole current-session state is
  untouched.
\<close>

theorem finish_at_zero_is_noop:
  assumes "newCount (current a) + oldCount (current a) = 0"
  shows "sessions (doFinish lc ts uid a) = sessions a \<and>
         locked (current (doFinish lc ts uid a)) = locked (current a) \<and>
         current (doFinish lc ts uid a) = current a"
  using assms by (simp add: doFinish_def Let_def current_total_def)

text \<open>An instance: a locked state whose counters were reset to zero stays locked.\<close>

theorem finish_at_zero_is_noop_witness:
  "newCount \<lparr>date = Some ''2024-01-01'', location = Some ''Dhaka'', newCount = 0, oldCount = 0,
       locked = True\<rparr>
     + oldCount \<lparr>date = Some ''2024-01-01'', location = Some ''Dhaka'', newCount = 0,
       oldCount = 0, locked = True\<rparr> = 0
   \<and> doFinish codeUnitCompare ''t'' ''u''
       \<lparr>sessions = [],
        current = \<lparr>date = Some ''2024-01-01'', location = Some ''Dhaka'', newCount = 0,
          oldCount = 0, locked = True\<rparr>,
        showFinish = True\<rparr>
     = \<lparr>sessions = [],
        current = \<lparr>date = Some ''2024-01-01'', location = Some ''Dhaka'', newCount = 0,
          oldCount = 0, locked = True\<rparr>,
        showFinish = False\<rparr>"
  using finish_at_zero_is_noop
    [of "\<lparr>sessions = [],
          current = \<lparr>date = Some ''2024-01-01'', location = Some ''Dhaka'', newCount = 0,
            oldCount = 0, locked = True\<rparr>,
          showFinish = True\<rparr>" codeUnitCompare "''t''" "''u''"]
  by (simp add: doFinish_def Let_def current_total_def)

text \<open>
  C6. When the total is positive and both a date and a location are selected,
  \<^verbatim>\<open>doFinish\<close> sets both counters to zero and \<open>locked\<close> to false, and the date and
  location of the current session stay as they were.
\<close>

theorem finish_resets_counters:
  assumes "0 < newCount (current a) + oldCount (current a)"
    and "truthy (CurrentState.date (current a))"
    and "truthy (CurrentState.location (current a))"
  shows "newCount (current (doFinish lc ts uid a)) = 0 \<and>
         oldCount (current (doFinish lc ts uid a)) = 0 \<and>
         \<not> locked (current (doFinish lc ts uid a)) \<and>
         CurrentState.date (current (doFinish lc ts uid a)) = CurrentState.date (current a) \<and>
         CurrentState.location (current (doFinish lc ts uid a)) = CurrentState.location (current a)"
  using assms by (auto simp: doFinish_def Let_def current_total_def split: option.splits)

text \<open>An instance: seven patients at Dhaka.\<close>

theorem finish_resets_counters_witness:
  "0 < newCount \<lparr>date = Some ''2024-01-01'', location = Some ''Dhaka'', newCount = 3,
         oldCount = 4, locked = True\<rparr>
       + oldCount \<lparr>date = Some ''2024-01-01'', location = Some ''Dhaka'', newCount = 3,
         oldCount = 4, locked = True\<rparr>
   \<and> truthy (Some ''2024-01-01'') \<and> truthy (Some ''Dhaka'')
   \<and> current (doFinish codeUnitCompare ''t'' ''u''
        \<lparr>sessions = [],
         current = \<lparr>date = Some ''2024-01-01'', location = Some ''Dhaka'', newCount = 3,
           oldCount = 4, locked = True\<rparr>,
         showFinish = True\<rparr>)
     = \<lparr>date = Some ''2024-01-01'', location = Some ''Dhaka'', newCount = 0, oldCount = 0,
         locked = False\<rparr>"
  using finish_resets_counters
    [of "\<lparr>sessions = [],
          current = \<lparr>date = Some ''2024-01-01'', location = Some ''Dhaka'', newCount = 3,
            oldCount = 4, locked = True\<rparr>,
          showFinish = True\<rparr>" codeUnitCompare "''t''" "''u''"]
  by (simp add: doFinish_def Let_def current_total_def)

text \<open>
  C10. When the total is positive but the date or the location is \<^verbatim>\<open>null\<close>,
  \<^verbatim>\<open>doFinish\<close> only closes the confirmation dialog: the ledger, both counters,
  \<open>locked\<close>, the date and the location are all as before.
\<close>

theorem finish_without_selection_is_noop:
  assumes "0 < newCount (current a) + oldCount (current a)"
    and "CurrentState.date (current a) = None \<or> CurrentState.location (current a) = None"
  shows "doFinish lc ts uid a = a\<lparr>showFinish := False\<rparr>"
  using assms by (auto simp: doFinish_def Let_def)

text \<open>An instance: seven patients counted and no location.\<close>

theorem finish_without_selection_is_noop_witness:
  "0 < newCount \<lparr>date = Some ''2024-01-01'', location = None, newCount = 3, oldCount = 4,
         locked = True\<rparr>
       + oldCount \<lparr>date = Some ''2024-01-01'', location = None, newCount = 3, oldCount = 4,
         locked = True\<rparr>
   \<and> CurrentState.location \<lparr>date = Some ''2024-01-01'', location = None, newCount = 3,
       oldCount = 4, locked = True\<rparr> = None
   \<and> doFinish codeUnitCompare ''t'' ''u''
        \<lparr>sessions = [],
         current = \<lparr>date = Some ''2024-01-01'', location = None, newCount = 3, oldCount = 4,
           locked = True\<rparr>,
         showFinish = True\<rparr>
     = \<lparr>sessions = [],
         current = \<lparr>date = Some ''2024-01-01'', location = None, newCount = 3, oldCount = 4,
           locked = True\<rparr>,
         showFinish = False\<rparr>"
  using finish_without_selection_is_noop
    [of "\<lparr>sessions = [],
          current = \<lparr>date = Some ''2024-01-01'', location = None, newCount = 3, oldCount = 4,
            locked = True\<rparr>,
          showFinish = True\<rparr>" codeUnitCompare "''t''" "''u''"]
  by (simp add: doFinish_def Let_def current_total_def)

section \<open>The store adapter\<close>

text \<open>
  C7, with a failing write as the code has it. \<^verbatim>\<open>loadSessions\<close> and \<^verbatim>\<open>loadCurrent\<close> never throw: each
  returns its default when storage is unavailable, when the key is absent and when the
  stored text does not parse, and the parsed value of a stored, non-empty text that does
  parse. \<^verbatim>\<open>saveSessions\<close> and \<^verbatim>\<open>saveCurrent\<close> serialise and write the value when
  the write succeeds; a write that fails is not caught, and its exception reaches the
  caller.
\<close>

theorem load_never_throws_save_may:
  "(\<exists>v. loadSessions parse st = Inr v) \<and> (\<exists>c. loadCurrent today parse' st = Inr c)
   \<and> (blocked st \<or> entries st SESSIONS_KEY = None \<or>
        (\<exists>raw. entries st SESSIONS_KEY = Some raw \<and> parse raw = None)
        \<longrightarrow> loadSessions parse st = Inr [])
   \<and> (\<not> blocked st \<and> entries st SESSIONS_KEY = Some raw \<and> raw \<noteq> [] \<and> parse raw = Some v
        \<longrightarrow> loadSessions parse st = Inr v)
   \<and> (blocked st \<or> entries st CURRENT_KEY = None \<or>
        (\<exists>raw. entries st CURRENT_KEY = Some raw \<and> parse' raw = None)
        \<longrightarrow> loadCurrent today parse' st = Inr (default_current today))
   \<and> (\<not> blocked st \<and> entries st CURRENT_KEY = Some raw' \<and> raw' \<noteq> [] \<and> parse' raw' = Some c
        \<longrightarrow> loadCurrent today parse' st = Inr c)
   \<and> (\<not> blocked st \<and> length (stringify list) \<le> quota st
        \<longrightarrow> saveSessions stringify st list =
              Inr (st\<lparr>entries := (entries st)(SESSIONS_KEY \<mapsto> stringify list)\<rparr>))
   \<and> (\<not> blocked st \<and> length (stringify' s) \<le> quota st
        \<longrightarrow> saveCurrent stringify' st s =
              Inr (st\<lparr>entries := (entries st)(CURRENT_KEY \<mapsto> stringify' s)\<rparr>))
   \<and> (blocked st \<or> quota st < length (stringify list)
        \<longrightarrow> (\<exists>e. saveSessions stringify st list = Inl e))
   \<and> (blocked st \<or> quota st < length (stringify' s)
        \<longrightarrow> (\<exists>e. saveCurrent stringify' st s = Inl e))"
  by (auto simp: loadSessions_cases loadCurrent_cases saveSessions_def saveCurrent_def setItem_def)

text \<open>
  Two instances: a working store that holds both keys, and a store whose access is denied.
\<close>

theorem load_never_throws_save_may_witness:
  "loadSessions (\<lambda>r. if r = ''[s]'' then Some [\<lparr>sessionId = ''a'', date = ''2024-01-01'',
        location = ''Dhaka'', total = 5, finishedAt = ''t1''\<rparr>] else None)
      \<lparr>entries = [SESSIONS_KEY \<mapsto> ''[s]'', CURRENT_KEY \<mapsto> ''{c}''], blocked = False, quota = 9\<rparr>
     = Inr [\<lparr>sessionId = ''a'', date = ''2024-01-01'', location = ''Dhaka'', total = 5,
         finishedAt = ''t1''\<rparr>]
   \<and> loadCurrent ''2024-01-02'' (\<lambda>r. if r = ''{c}'' then Some \<lparr>date = Some ''2024-01-01'',
        location = Some ''Dhaka'', newCount = 1, oldCount = 2, locked = True\<rparr> else None)
      \<lparr>entries = [SESSIONS_KEY \<mapsto> ''[s]'', CURRENT_KEY \<mapsto> ''{c}''], blocked = False, quota = 9\<rparr>
     = Inr \<lparr>date = Some ''2024-01-01'', location = Some ''Dhaka'', newCount = 1, oldCount = 2,
         locked = True\<rparr>
   \<and> saveSessions (\<lambda>l. ''[]'')
      \<lparr>entries = [SESSIONS_KEY \<mapsto> ''[s]'', CURRENT_KEY \<mapsto> ''{c}''], blocked = False, quota = 9\<rparr> []
     = Inr \<lparr>entries = [SESSIONS_KEY \<mapsto> ''[]'', CURRENT_KEY \<mapsto> ''{c}''], blocked = False,
         quota = 9\<rparr>
   \<and> saveCurrent (\<lambda>c. ''{d}'')
      \<lparr>entries = [SESSIONS_KEY \<mapsto> ''[s]'', CURRENT_KEY \<mapsto> ''{c}''], blocked = False, quota = 9\<rparr>
      (default_current ''2024-01-02'')
     = Inr \<lparr>entries = [SESSIONS_KEY \<mapsto> ''[s]'', CURRENT_KEY \<mapsto> ''{d}''], blocked = False,
         quota = 9\<rparr>
   \<and> loadSessions (\<lambda>r. None) \<lparr>entries = Map.empty, blocked = True, quota = 9\<rparr> = Inr []
   \<and> loadCurrent ''2024-01-02'' (\<lambda>r. None) \<lparr>entries = Map.empty, blocked = True, quota = 9\<rparr>
     = Inr (default_current ''2024-01-02'')
   \<and> (\<exists>e. saveSessions (\<lambda>l. ''[]'') \<lparr>entries = Map.empty, blocked = True, quota = 9\<rparr> []
          = Inl e)
   \<and> (\<exists>e. saveCurrent (\<lambda>c. ''{d}'') \<lparr>entries = Map.empty, blocked = True, quota = 9\<rparr>
          (default_current ''2024-01-02'') = Inl e)"
  using
    load_never_throws_save_may
      [of "\<lambda>r. if r = ''[s]'' then Some [\<lparr>sessionId = ''a'', date = ''2024-01-01'',
             location = ''Dhaka'', total = 5, finishedAt = ''t1''\<rparr>] else None"
          "\<lparr>entries = [SESSIONS_KEY \<mapsto> ''[s]'', CURRENT_KEY \<mapsto> ''{c}''], blocked = False,
             quota = 9\<rparr>"
          "''2024-01-02''"
          "\<lambda>r. if r = ''{c}'' then Some \<lparr>date = Some ''2024-01-01'',
             location = Some ''Dhaka'', newCount = 1, oldCount = 2, locked = True\<rparr> else None"
          "''[s]''"
          "[\<lparr>sessionId = ''a'', date = ''2024-01-01'', location = ''Dhaka'', total = 5,
              finishedAt = ''t1''\<rparr>]"
          "''{c}''"
          "\<lparr>date = Some ''2024-01-01'', location = Some ''Dhaka'', newCount = 1, oldCount = 2,
             locked = True\<rparr>"
          "\<lambda>l. ''[]''" "[]" "\<lambda>c. ''{d}''" "default_current ''2024-01-02''"]
    load_never_throws_save_may
      [of "\<lambda>r. None" "\<lparr>entries = Map.empty, blocked = True, quota = 9\<rparr>" "''2024-01-02''"
          "\<lambda>r. None" "[]" "[]" "[]" "default_current ''2024-01-02''"
          "\<lambda>l. ''[]''" "[]" "\<lambda>c. ''{d}''" "default_current ''2024-01-02''"]
  by (simp add: SESSIONS_KEY_def CURRENT_KEY_def fun_upd_twist)

text \<open>
  Section 4.1 of the specification also has \<^verbatim>\<open>save\<close> never throw. With access to
  storage denied, \<^verbatim>\<open>saveSessions\<close> ends in the \<^verbatim>\<open>SecurityError\<close> of
  \<^verbatim>\<open>setItem\<close>.
\<close>

theorem save_throws_counterexample:
  "saveSessions (\<lambda>list. ''[]'') \<lparr>entries = Map.empty, blocked = True, quota = 9\<rparr> []
     = Inl SecurityError"
  by (simp add: saveSessions_def setItem_def)

section \<open>The history filter\<close>

text \<open>
  C8. A session is in the filtered list exactly when it is in the ledger and meets every
  filter that is switched on: the location, the year (the first four characters of the
  date), the month (the two characters at positions 5 and 6, counted from 0, read as a
  number), the lower and the upper bound of the date. With every filter off the result is
  the ledger itself. And the filter writes to no array that existed: the ledger's array is
  as before, the result is a new one.
\<close>

theorem filtered_iff_all_predicates:
  "(s \<in> set (filtered Number ss locFilter yearFilter monthFilter from to) \<longleftrightarrow>
      s \<in> set ss \<and>
      (locFilter \<noteq> ''ALL'' \<longrightarrow> Session.location s = locFilter) \<and>
      (yearFilter \<noteq> ''ALL'' \<longrightarrow> slice 0 4 (Session.date s) = yearFilter) \<and>
      (monthFilter \<noteq> 0 \<longrightarrow> Number (slice 5 7 (Session.date s)) = Some monthFilter) \<and>
      (from \<noteq> [] \<longrightarrow> from \<le> Session.date s) \<and>
      (to \<noteq> [] \<longrightarrow> Session.date s \<le> to))
   \<and> filtered Number ss ''ALL'' ''ALL'' 0 [] [] = ss
   \<and> (r < length h \<longrightarrow>
        (case filtered_at Number r locFilter yearFilter monthFilter from to h of
           (r', h') \<Rightarrow>
             (\<forall>i < length h. h' ! i = h ! i) \<and>
             h' ! r' = filtered Number (h ! r) locFilter yearFilter monthFilter from to))"
  by (auto simp: filtered_def passes_def filtered_at_def array_filter_def nth_append)

text \<open>
  An instance with all five filters on: of three Dhaka records only that of January 2024
  passes, and the store of arrays gains the result at a new address.
\<close>

theorem filtered_iff_all_predicates_witness:
  "\<lparr>sessionId = ''a'', date = ''2024-01-01'', location = ''Dhaka'', total = 5,
      finishedAt = ''t1''\<rparr>
     \<in> set (filtered (\<lambda>m. if m = ''01'' then Some 1 else if m = ''02'' then Some 2 else None)
        [\<lparr>sessionId = ''c'', date = ''2024-02-01'', location = ''Dhaka'', total = 2,
            finishedAt = ''t3''\<rparr>,
         \<lparr>sessionId = ''a'', date = ''2024-01-01'', location = ''Dhaka'', total = 5,
            finishedAt = ''t1''\<rparr>,
         \<lparr>sessionId = ''b'', date = ''2023-01-01'', location = ''Dhaka'', total = 2,
            finishedAt = ''t0''\<rparr>]
        ''Dhaka'' ''2024'' 1 ''2024-01-01'' ''2024-12-31'')
   \<and> fst (filtered_at (\<lambda>m. if m = ''01'' then Some 1 else if m = ''02'' then Some 2 else None)
        0 ''Dhaka'' ''2024'' 1 ''2024-01-01'' ''2024-12-31''
        [[\<lparr>sessionId = ''c'', date = ''2024-02-01'', location = ''Dhaka'', total = 2,
            finishedAt = ''t3''\<rparr>,
          \<lparr>sessionId = ''a'', date = ''2024-01-01'', location = ''Dhaka'', total = 5,
            finishedAt = ''t1''\<rparr>,
          \<lparr>sessionId = ''b'', date = ''2023-01-01'', location = ''Dhaka'', total = 2,
            finishedAt = ''t0''\<rparr>]]) = 1
   \<and> snd (filtered_at (\<lambda>m. if m = ''01'' then Some 1 else if m = ''02'' then Some 2 else None)
        0 ''Dhaka'' ''2024'' 1 ''2024-01-01'' ''2024-12-31''
        [[\<lparr>sessionId = ''c'', date = ''2024-02-01'', location = ''Dhaka'', total = 2,
            finishedAt = ''t3''\<rparr>,
          \<lparr>sessionId = ''a'', date = ''2024-01-01'', location = ''Dhaka'', total = 5,
            finishedAt = ''t1''\<rparr>,
          \<lparr>sessionId = ''b'', date = ''2023-01-01'', location = ''Dhaka'', total = 2,
            finishedAt = ''t0''\<rparr>]])
     = [[\<lparr>sessionId = ''c'', date = ''2024-02-01'', location = ''Dhaka'', total = 2,
            finishedAt = ''t3''\<rparr>,
         \<lparr>sessionId = ''a'', date = ''2024-01-01'', location = ''Dhaka'', total = 5,
            finishedAt = ''t1''\<rparr>,
         \<lparr>sessionId = ''b'', date = ''2023-01-01'', location = ''Dhaka'', total = 2,
            finishedAt = ''t0''\<rparr>],
        [\<lparr>sessionId = ''a'', date = ''2024-01-01'', location = ''Dhaka'', total = 5,
            finishedAt = ''t1''\<rparr>]]"
  using filtered_iff_all_predicates
    [of "\<lparr>sessionId = ''a'', date = ''2024-01-01'', location = ''Dhaka'', total = 5,
           finishedAt = ''t1''\<rparr>"
        "\<lambda>m. if m = ''01'' then Some 1 else if m = ''02'' then Some 2 else None"
        "[\<lparr>sessionId = ''c'', date = ''2024-02-01'', location = ''Dhaka'', total = 2,
            finishedAt = ''t3''\<rparr>,
          \<lparr>sessionId = ''a'', date = ''2024-01-01'', location = ''Dhaka'', total = 5,
            finishedAt = ''t1''\<rparr>,
          \<lparr>sessionId = ''b'', date = ''2023-01-01'', location = ''Dhaka'', total = 2,
            finishedAt = ''t0''\<rparr>]"
        "''Dhaka''" "''2024''" 1 "''2024-01-01''" "''2024-12-31''" 0
        "[[\<lparr>sessionId = ''c'', date = ''2024-02-01'', location = ''Dhaka'', total = 2,
            finishedAt = ''t3''\<rparr>,
          \<lparr>sessionId = ''a'', date = ''2024-01-01'', location = ''Dhaka'', total = 5,
            finishedAt = ''t1''\<rparr>,
          \<lparr>sessionId = ''b'', date = ''2023-01-01'', location = ''Dhaka'', total = 2,
            finishedAt = ''t0''\<rparr>]]"]
  by (simp add: filtered_def passes_def slice_def filtered_at_def array_filter_def)

section \<open>The service worker\<close>

text \<open>
  C9. Activation leaves exactly the caches named \<^verbatim>\<open>CACHE\<close>, each with its content:
  every cache of another name is deleted, and the current one is kept.
\<close>

theorem activate_keeps_only_current:
  "activate cs = filter (\<lambda>(n, c). n = CACHE) cs \<and>
   (\<forall>n c. (n, c) \<in> set (activate cs) \<longleftrightarrow> (n, c) \<in> set cs \<and> n = CACHE)"
  by (auto simp: activate_filter)

end
